theory Spec2Isabelle
  imports Main
begin

section \<open>The Poe bot adapter of cookbook/agents/app.py\<close>

text \<open>
  The script wraps an agent as a chat bot. Everything it talks to is outside the file:
  the Docker client, the agent built by \<open>get_agent\<close>, the bot platform's request and
  response types. Those appear here as parameters: the behaviour of the Docker client
  and of the agent is a record of functions that say what each call returns or raises.
  Every call the script issues to the outside is appended to a trace of events, so that
  "issues exactly one start call" is a statement about the trace.
\<close>

subsection \<open>Exceptions and events\<close>

text \<open>
  \<open>NotFound\<close> stands for any instance of \<open>docker.errors.NotFound\<close> (the only exception
  class the script names in an \<open>except\<close> clause), \<open>IndexError\<close> for Python's error on
  \<open>xs[-1]\<close> of an empty list, \<open>OtherError\<close> for every other exception, with its message.
\<close>

datatype exn = NotFound | IndexError | OtherError string

text \<open>The keyword arguments of \<open>client.containers.run\<close>; the dicts keep their order.\<close>

record run_args =
  image_ref :: string
  name :: string
  detach :: bool
  ports :: "(string \<times> nat) list"
  environment :: "(string \<times> string) list"

text \<open>The keyword arguments of \<open>get_agent\<close>.\<close>

record agent_cfg =
  llm_id :: string
  calculator :: bool
  ddg_search :: bool
  file_tools :: bool
  finance_tools :: bool
  data_analyst :: bool
  python_assistant :: bool
  research_assistant :: bool
  investment_assistant :: bool
  firecrawl_tools :: bool

datatype event =
    FromEnv
  | ContainersGet string
  | Print string
  | ContainerStart
  | Sleep nat
  | ContainersRun run_args
  | GetAgent agent_cfg
  | CreateRun
  | AgentRun string

subsection \<open>The Docker client\<close>

record container =
  status :: string

text \<open>
  What the control plane answers: \<open>from_env\<close> returns a client or raises (\<open>Some e\<close>),
  \<open>containers_get\<close> returns a container or raises, \<open>container_start\<close> and
  \<open>containers_run\<close> return or raise.
\<close>

record docker =
  from_env :: "exn option"
  containers_get :: "string \<Rightarrow> exn + container"
  container_start :: "container \<Rightarrow> exn option"
  containers_run :: "run_args \<Rightarrow> exn option"

text \<open>The body of the \<open>try\<close> block of \<open>ensure_pgvector_running\<close> (lines 58 to 63).\<close>

definition try_block :: "docker \<Rightarrow> event list \<Rightarrow> (exn + unit) \<times> event list" where
  "try_block d tr =
     (case containers_get d ''pgvector'' of
        Inl e \<Rightarrow> (Inl e, tr @ [ContainersGet ''pgvector''])
      | Inr c \<Rightarrow>
          if status c \<noteq> ''running'' then
            (case container_start d c of
               Some e \<Rightarrow>
                 (Inl e, tr @ [ContainersGet ''pgvector'',
                               Print ''Starting PgVector container...'',
                               ContainerStart])
             | None \<Rightarrow>
                 (Inr (), tr @ [ContainersGet ''pgvector'',
                                Print ''Starting PgVector container...'',
                                ContainerStart,
                                Sleep 10]))
          else (Inr (), tr @ [ContainersGet ''pgvector'']))"

definition pgvector_run_args :: run_args where
  "pgvector_run_args =
     \<lparr>image_ref = ''phidata/pgvector:16'',
      name = ''pgvector'',
      detach = True,
      ports = [(''5432/tcp'', 5532)],
      environment = [(''POSTGRES_DB'', ''ai''),
                     (''POSTGRES_USER'', ''ai''),
                     (''POSTGRES_PASSWORD'', ''ai'')]\<rparr>"

text \<open>The body of the \<open>except docker.errors.NotFound\<close> handler (lines 65 to 78).\<close>

definition except_block :: "docker \<Rightarrow> event list \<Rightarrow> (exn + unit) \<times> event list" where
  "except_block d tr =
     (case containers_run d pgvector_run_args of
        Some e \<Rightarrow>
          (Inl e, tr @ [Print ''PgVector container not found, creating and starting...'',
                        ContainersRun pgvector_run_args])
      | None \<Rightarrow>
          (Inr (), tr @ [Print ''PgVector container not found, creating and starting...'',
                         ContainersRun pgvector_run_args,
                         Sleep 15]))"

text \<open>
  \<open>docker.from_env()\<close> is called before the \<open>try\<close>; the handler catches \<open>NotFound\<close>
  raised anywhere in the \<open>try\<close> block and nothing else.
\<close>

definition ensure_pgvector_running :: "docker \<Rightarrow> event list \<Rightarrow> (exn + unit) \<times> event list" where
  "ensure_pgvector_running d tr =
     (case from_env d of
        Some e \<Rightarrow> (Inl e, tr @ [FromEnv])
      | None \<Rightarrow>
          (case try_block d (tr @ [FromEnv]) of
             (Inl e, tr1) \<Rightarrow> if e = NotFound then except_block d tr1 else (Inl e, tr1)
           | (Inr u, tr1) \<Rightarrow> (Inr u, tr1)))"

subsection \<open>The agent\<close>

text \<open>
  \<open>agent.run(msg)\<close> is a generator: it yields finitely many text fragments and then is
  exhausted (\<open>raised = None\<close>) or raises. A generator that never ends, on which the
  script would wait for ever, is outside this model. The agent keeps state of its own,
  of a type \<open>'s\<close> the script never looks into.
\<close>

record generation =
  fragments :: "string list"
  raised :: "exn option"

record 's agent =
  agent_state :: 's
  create_run :: "'s \<Rightarrow> (exn + string) \<times> 's"
  run :: "'s \<Rightarrow> string \<Rightarrow> generation \<times> 's"

record 's bot =
  agent :: "'s agent"
  agent_run_id :: string

text \<open>The world a bot is constructed in: the Docker client and the imported \<open>get_agent\<close>.\<close>

record 's env =
  docker_client :: docker
  get_agent :: "agent_cfg \<Rightarrow> exn + 's agent"

definition bot_agent_cfg :: agent_cfg where
  "bot_agent_cfg =
     \<lparr>llm_id = ''gpt-4o-mini'',
      calculator = True,
      ddg_search = True,
      file_tools = True,
      finance_tools = True,
      data_analyst = True,
      python_assistant = True,
      research_assistant = True,
      investment_assistant = True,
      firecrawl_tools = True\<rparr>"

text \<open>
  \<open>PhidataPoeBot.__init__\<close> (lines 13 to 31). The constructor of the platform's base
  class, called first, touches nothing the script reads and is left out.
\<close>

definition init :: "'s env \<Rightarrow> event list \<Rightarrow> (exn + 's bot) \<times> event list" where
  "init env tr =
     (case ensure_pgvector_running (docker_client env) tr of
        (Inl e, tr1) \<Rightarrow> (Inl e, tr1)
      | (Inr u, tr1) \<Rightarrow>
          (case get_agent env bot_agent_cfg of
             Inl e \<Rightarrow> (Inl e, tr1 @ [GetAgent bot_agent_cfg])
           | Inr a \<Rightarrow>
               (case create_run a (agent_state a) of
                  (Inl e, s') \<Rightarrow> (Inl e, tr1 @ [GetAgent bot_agent_cfg, CreateRun])
                | (Inr rid, s') \<Rightarrow>
                    (Inr \<lparr>agent = a\<lparr>agent_state := s'\<rparr>, agent_run_id = rid\<rparr>,
                     tr1 @ [GetAgent bot_agent_cfg, CreateRun]))))"

subsection \<open>Answering a query\<close>

record message =
  role :: string
  content :: string

record query_request =
  query :: "message list"
  user_id :: string
  conversation_id :: string
  message_id :: string

record partial_response =
  resp_text :: string

text \<open>
  \<open>run_agent\<close> (lines 44 to 49): the loop appends each fragment to \<open>response_text\<close>;
  an exception of the generator leaves the loop and the method.
\<close>

definition run_agent :: "'s bot \<Rightarrow> string \<Rightarrow> event list \<Rightarrow> (exn + string) \<times> 's bot \<times> event list" where
  "run_agent b user_message tr =
     (case run (agent b) (agent_state (agent b)) user_message of
        (g, s') \<Rightarrow>
          (case raised g of
             Some e \<Rightarrow> Inl e
           | None \<Rightarrow> Inr (foldl (\<lambda>response_text delta. response_text @ delta) [] (fragments g)),
           b\<lparr>agent := (agent b)\<lparr>agent_state := s'\<rparr>\<rparr>,
           tr @ [AgentRun user_message]))"

text \<open>
  \<open>get_response\<close> (lines 33 to 42), an asynchronous generator: the result is the list
  of chunks it yields, or the exception it raises before yielding any.
  \<open>request.query[-1]\<close> raises IndexError on an empty list. The hand-off to the
  executor thread is awaited at once, so it is the plain call of \<open>run_agent\<close>.
\<close>

definition get_response ::
  "'s bot \<Rightarrow> query_request \<Rightarrow> event list \<Rightarrow> (exn + partial_response list) \<times> 's bot \<times> event list" where
  "get_response b request tr =
     (if query request = [] then (Inl IndexError, b, tr)
      else
        let user_message = content (last (query request)) in
        (case run_agent b user_message tr of
           (Inl e, b', tr') \<Rightarrow> (Inl e, b', tr')
         | (Inr response_text, b', tr') \<Rightarrow> (Inr [\<lparr>resp_text = response_text\<rparr>], b', tr')))"

subsection \<open>Settings\<close>

record settings_request =
  version :: string
  request_type :: string

text \<open>
  \<open>fp.SettingsResponse()\<close> is built with no argument: the response carries no
  setting of the bot's own.
\<close>

datatype settings_response = SettingsResponse (overrides: "(string \<times> string) list")

definition get_settings ::
  "'s bot \<Rightarrow> settings_request \<Rightarrow> event list \<Rightarrow> (exn + settings_response) \<times> 's bot \<times> event list" where
  "get_settings b setting tr = (Inr (SettingsResponse []), b, tr)"

subsection \<open>The deployment descriptor\<close>

definition REQUIREMENTS :: "string list" where
  "REQUIREMENTS =
     [''fastapi-poe==0.0.48'',
      ''docker'',
      ''firecrawl'',
      ''phidata'',
      ''bs4'',
      ''duckduckgo-search'',
      ''exa-py'',
      ''nest-asyncio'',
      ''openai'',
      ''pgvector'',
      ''psycopg2-binary'',
      ''pypdf'',
      ''sqlalchemy'',
      ''yfinance'',
      ''duckdb'',
      ''pandas'',
      ''matplotlib'']"

subsection \<open>Reading the trace\<close>

text \<open>The calls of each kind that a trace holds, in order.\<close>

fun lookups :: "event list \<Rightarrow> string list" where
  "lookups [] = []"
| "lookups (ContainersGet n # tr) = n # lookups tr"
| "lookups (_ # tr) = lookups tr"

fun start_calls :: "event list \<Rightarrow> nat" where
  "start_calls [] = 0"
| "start_calls (ContainerStart # tr) = Suc (start_calls tr)"
| "start_calls (_ # tr) = start_calls tr"

fun create_calls :: "event list \<Rightarrow> run_args list" where
  "create_calls [] = []"
| "create_calls (ContainersRun a # tr) = a # create_calls tr"
| "create_calls (_ # tr) = create_calls tr"

fun sleeps :: "event list \<Rightarrow> nat list" where
  "sleeps [] = []"
| "sleeps (Sleep n # tr) = n # sleeps tr"
| "sleeps (_ # tr) = sleeps tr"

fun agent_constructions :: "event list \<Rightarrow> agent_cfg list" where
  "agent_constructions [] = []"
| "agent_constructions (GetAgent cfg # tr) = cfg # agent_constructions tr"
| "agent_constructions (_ # tr) = agent_constructions tr"

fun agent_inputs :: "event list \<Rightarrow> string list" where
  "agent_inputs [] = []"
| "agent_inputs (AgentRun m # tr) = m # agent_inputs tr"
| "agent_inputs (_ # tr) = agent_inputs tr"

subsection \<open>Concrete control planes, agents and requests\<close>

text \<open>No container of that name; creating one succeeds.\<close>

definition docker_absent :: docker where
  "docker_absent =
     \<lparr>from_env = None,
      containers_get = (\<lambda>n. Inl NotFound),
      container_start = (\<lambda>c. None),
      containers_run = (\<lambda>a. None)\<rparr>"

text \<open>The container exists and is stopped; starting it succeeds.\<close>

definition docker_stopped :: docker where
  "docker_stopped =
     \<lparr>from_env = None,
      containers_get = (\<lambda>n. Inr \<lparr>status = ''exited''\<rparr>),
      container_start = (\<lambda>c. None),
      containers_run = (\<lambda>a. None)\<rparr>"

text \<open>The container exists and runs.\<close>

definition docker_running :: docker where
  "docker_running =
     \<lparr>from_env = None,
      containers_get = (\<lambda>n. Inr \<lparr>status = ''running''\<rparr>),
      container_start = (\<lambda>c. None),
      containers_run = (\<lambda>a. None)\<rparr>"

text \<open>
  The container is stopped when looked up and gone when started: the engine answers
  the start call with 404, which the client raises as \<open>NotFound\<close>.
\<close>

definition docker_vanished :: docker where
  "docker_vanished =
     \<lparr>from_env = None,
      containers_get = (\<lambda>n. Inr \<lparr>status = ''exited''\<rparr>),
      container_start = (\<lambda>c. Some NotFound),
      containers_run = (\<lambda>a. None)\<rparr>"

definition docker_lookup_fails :: docker where
  "docker_lookup_fails =
     \<lparr>from_env = None,
      containers_get = (\<lambda>n. Inl (OtherError ''connection refused'')),
      container_start = (\<lambda>c. None),
      containers_run = (\<lambda>a. None)\<rparr>"

definition docker_start_fails :: docker where
  "docker_start_fails =
     \<lparr>from_env = None,
      containers_get = (\<lambda>n. Inr \<lparr>status = ''exited''\<rparr>),
      container_start = (\<lambda>c. Some (OtherError ''port is already allocated'')),
      containers_run = (\<lambda>a. None)\<rparr>"

definition docker_create_fails :: docker where
  "docker_create_fails =
     \<lparr>from_env = None,
      containers_get = (\<lambda>n. Inl NotFound),
      container_start = (\<lambda>c. None),
      containers_run = (\<lambda>a. Some (OtherError ''pull access denied''))\<rparr>"

text \<open>
  An agent that answers every message with the same fragments and remembers the
  messages it was given.
\<close>

definition scripted_agent :: "string list \<Rightarrow> string list agent" where
  "scripted_agent fs =
     \<lparr>agent_state = [],
      create_run = (\<lambda>s. (Inr ''run-1'', s)),
      run = (\<lambda>s m. (\<lparr>fragments = fs, raised = None\<rparr>, s @ [m]))\<rparr>"

definition scripted_env :: "docker \<Rightarrow> string list env" where
  "scripted_env d = \<lparr>docker_client = d, get_agent = (\<lambda>cfg. Inr (scripted_agent [''4'']))\<rparr>"

definition scripted_bot :: "string list \<Rightarrow> string list bot" where
  "scripted_bot fs = \<lparr>agent = scripted_agent fs, agent_run_id = ''run-1''\<rparr>"

definition request_of :: "string list \<Rightarrow> query_request" where
  "request_of cs =
     \<lparr>query = map (\<lambda>c. \<lparr>role = ''user'', content = c\<rparr>) cs,
      user_id = ''u'', conversation_id = ''c'', message_id = ''m''\<rparr>"

section \<open>Properties\<close>

subsection \<open>Auxiliary facts\<close>

lemma lookups_append: "lookups (xs @ ys) = lookups xs @ lookups ys"
  by (induction xs rule: lookups.induct) simp_all

lemma start_calls_append: "start_calls (xs @ ys) = start_calls xs + start_calls ys"
  by (induction xs rule: start_calls.induct) simp_all

lemma create_calls_append: "create_calls (xs @ ys) = create_calls xs @ create_calls ys"
  by (induction xs rule: create_calls.induct) simp_all

lemma sleeps_append: "sleeps (xs @ ys) = sleeps xs @ sleeps ys"
  by (induction xs rule: sleeps.induct) simp_all

lemma agent_constructions_append:
  "agent_constructions (xs @ ys) = agent_constructions xs @ agent_constructions ys"
  by (induction xs rule: agent_constructions.induct) simp_all

lemma agent_inputs_append: "agent_inputs (xs @ ys) = agent_inputs xs @ agent_inputs ys"
  by (induction xs rule: agent_inputs.induct) simp_all

text \<open>The loop of \<open>run_agent\<close> computes the concatenation of the fragments.\<close>

lemma foldl_append_concat:
  "foldl (\<lambda>response_text delta. response_text @ delta) acc fs = acc @ concat fs"
  by (induction fs arbitrary: acc) simp_all

lemma run_agent_exhausted:
  assumes "run (agent b) (agent_state (agent b)) m = (g, s')" and "raised g = None"
  shows "run_agent b m tr =
           (Inr (concat (fragments g)),
            b\<lparr>agent := (agent b)\<lparr>agent_state := s'\<rparr>\<rparr>,
            tr @ [AgentRun m])"
  using assms by (simp add: run_agent_def foldl_append_concat)

text \<open>An exception of the generator fails the request: no chunk is yielded.\<close>

lemma get_response_agent_raises:
  assumes "query request \<noteq> []"
      and "run (agent b) (agent_state (agent b)) (content (last (query request))) = (g, s')"
      and "raised g = Some e"
  shows "fst (get_response b request tr) = Inl e"
  using assms by (simp add: get_response_def run_agent_def)

text \<open>
  When the client cannot be built, nothing is looked up, started or created, and the
  construction of the bot fails with the client's error.
\<close>

lemma from_env_error_propagates:
  assumes "from_env (docker_client env) = Some e"
  shows "init env tr = (Inl e, tr @ [FromEnv])"
  using assms by (simp add: init_def ensure_pgvector_running_def)

subsection \<open>The query adapter\<close>

text \<open>
  C1. For a request whose message list is not empty, when the agent's generator yields
  its fragments and is exhausted, \<open>get_response\<close> calls the agent's \<open>run\<close> once, with the
  content of the last message (the trace grows by that one call, the agent's state is
  the one that call leaves), and yields exactly one chunk, whose text is the
  concatenation of the fragments in order.
\<close>

theorem get_response_one_chunk:
  assumes "query request \<noteq> []"
      and "run (agent b) (agent_state (agent b)) (content (last (query request))) = (g, s')"
      and "raised g = None"
  shows "get_response b request tr =
           (Inr [\<lparr>resp_text = concat (fragments g)\<rparr>],
            b\<lparr>agent := (agent b)\<lparr>agent_state := s'\<rparr>\<rparr>,
            tr @ [AgentRun (content (last (query request)))])"
  using assms by (simp add: get_response_def run_agent_exhausted)

text \<open>The scenario of one message \<open>2+2\<close> answered by the single fragment \<open>4\<close>.\<close>

theorem get_response_one_chunk_witness:
  "query (request_of [''2+2'']) \<noteq> [] \<and>
   get_response (scripted_bot [''4'']) (request_of [''2+2'']) [] =
     (Inr [\<lparr>resp_text = ''4''\<rparr>],
      (scripted_bot [''4''])\<lparr>agent := (scripted_agent [''4''])\<lparr>agent_state := [''2+2'']\<rparr>\<rparr>,
      [AgentRun ''2+2''])"
  using get_response_one_chunk [where request = "request_of [''2+2'']"
      and b = "scripted_bot [''4'']" and g = "\<lparr>fragments = [''4''], raised = None\<rparr>"
      and s' = "[''2+2'']" and tr = "[]"]
  by (simp add: scripted_bot_def scripted_agent_def request_of_def)

text \<open>
  C3. For a request whose message list is empty, \<open>get_response\<close> raises IndexError;
  it yields no chunk, and the agent has not been called: the trace and the bot are as
  they were.
\<close>

theorem get_response_empty_query:
  assumes "query request = []"
  shows "get_response b request tr = (Inl IndexError, b, tr)"
  using assms by (simp add: get_response_def)

theorem get_response_empty_query_witness:
  "query (request_of []) = [] \<and>
   get_response (scripted_bot [''4'']) (request_of []) [] =
     (Inl IndexError, scripted_bot [''4''], [])"
  using get_response_empty_query [where request = "request_of []"
      and b = "scripted_bot [''4'']" and tr = "[]"]
  by (simp add: request_of_def)

text \<open>
  C7. Two requests whose last messages have the same content get the same treatment,
  whatever their earlier messages and other fields are: the string handed to the agent
  is the content of the last message, and the whole outcome of \<open>get_response\<close> is the
  same.
\<close>

theorem get_response_last_message_only:
  assumes "query r1 \<noteq> []" and "query r2 \<noteq> []"
      and "content (last (query r1)) = content (last (query r2))"
  shows "get_response b r1 tr = get_response b r2 tr \<and>
         agent_inputs (snd (snd (get_response b r1 tr))) =
           agent_inputs tr @ [content (last (query r1))] \<and>
         agent_inputs (snd (snd (get_response b r2 tr))) =
           agent_inputs tr @ [content (last (query r1))]"
  using assms
  by (auto simp: get_response_def run_agent_def agent_inputs_append Let_def
      split: prod.splits option.splits sum.splits)

text \<open>The scenario of the two messages \<open>a\<close> and \<open>b, what is it?\<close>.\<close>

theorem get_response_last_message_only_witness:
  "get_response (scripted_bot [''4'']) (request_of [''a'', ''b, what is it?'']) [] =
     get_response (scripted_bot [''4'']) (request_of [''b, what is it?'']) [] \<and>
   agent_inputs (snd (snd (get_response (scripted_bot [''4''])
       (request_of [''a'', ''b, what is it?'']) []))) = [''b, what is it?'']"
  using get_response_last_message_only [where ?r1.0 = "request_of [''a'', ''b, what is it?'']"
      and ?r2.0 = "request_of [''b, what is it?'']" and b = "scripted_bot [''4'']"
      and tr = "[]"]
  by (simp add: request_of_def)

text \<open>
  C10. For a request whose message list is not empty, when the agent's generator is
  exhausted without yielding any fragment, \<open>get_response\<close> yields exactly one chunk,
  whose text is the empty string.
\<close>

theorem get_response_empty_generation:
  assumes "query request \<noteq> []"
      and "run (agent b) (agent_state (agent b)) (content (last (query request))) =
             (\<lparr>fragments = [], raised = None\<rparr>, s')"
  shows "fst (get_response b request tr) = Inr [\<lparr>resp_text = ''''\<rparr>]"
  using assms by (simp add: get_response_def run_agent_exhausted)

theorem get_response_empty_generation_witness:
  "query (request_of [''hello'']) \<noteq> [] \<and>
   fst (get_response (scripted_bot []) (request_of [''hello'']) []) =
     Inr [\<lparr>resp_text = ''''\<rparr>]"
  using get_response_empty_generation [where request = "request_of [''hello'']"
      and b = "scripted_bot []" and s' = "[''hello'']" and tr = "[]"]
  by (simp add: scripted_bot_def scripted_agent_def request_of_def)

subsection \<open>Settings\<close>

text \<open>
  C5. \<open>get_settings\<close> returns the response built with no argument, for every bot,
  request and trace: any two calls return equal results.
\<close>

theorem get_settings_fixed:
  "fst (get_settings b1 s1 tr1) = Inr (SettingsResponse []) \<and>
   fst (get_settings b2 s2 tr2) = fst (get_settings b1 s1 tr1)"
  by (simp add: get_settings_def)

subsection \<open>The run identifier\<close>

text \<open>
  C9. \<open>agent_run_id\<close> is set by the construction of the bot, to what the agent's
  \<open>create_run\<close> returned there. \<open>get_response\<close>, \<open>run_agent\<close> and \<open>get_settings\<close> leave
  it as it is, and do not read it: run on a bot with another identifier, each gives the
  same result and trace, and the same bot but for that identifier.
\<close>

theorem agent_run_id_frame:
  "(init env tr = (Inr b0, tr0) \<longrightarrow>
      (\<exists>a s'. get_agent env bot_agent_cfg = Inr a \<and>
               create_run a (agent_state a) = (Inr (agent_run_id b0), s'))) \<and>
   agent_run_id (fst (snd (get_response b request tr))) = agent_run_id b \<and>
   agent_run_id (fst (snd (run_agent b m tr))) = agent_run_id b \<and>
   agent_run_id (fst (snd (get_settings b setting tr))) = agent_run_id b \<and>
   get_response (b\<lparr>agent_run_id := r\<rparr>) request tr =
     (case get_response b request tr of (x, b', tr') \<Rightarrow> (x, b'\<lparr>agent_run_id := r\<rparr>, tr')) \<and>
   run_agent (b\<lparr>agent_run_id := r\<rparr>) m tr =
     (case run_agent b m tr of (x, b', tr') \<Rightarrow> (x, b'\<lparr>agent_run_id := r\<rparr>, tr')) \<and>
   get_settings (b\<lparr>agent_run_id := r\<rparr>) setting tr =
     (case get_settings b setting tr of (x, b', tr') \<Rightarrow> (x, b'\<lparr>agent_run_id := r\<rparr>, tr'))"
  by (auto simp: init_def get_response_def run_agent_def get_settings_def Let_def
      split: prod.splits sum.splits option.splits)

theorem agent_run_id_frame_witness:
  "init (scripted_env docker_running) [] =
     (Inr \<lparr>agent = scripted_agent [''4''], agent_run_id = ''run-1''\<rparr>,
      [FromEnv, ContainersGet ''pgvector'', GetAgent bot_agent_cfg, CreateRun]) \<and>
   (\<exists>a s'. get_agent (scripted_env docker_running) bot_agent_cfg = Inr a \<and>
            create_run a (agent_state a) = (Inr ''run-1'', s')) \<and>
   agent_run_id (fst (snd (get_response (scripted_bot [''4'']) (request_of [''2+2'']) []))) =
     agent_run_id (scripted_bot [''4''])"
proof -
  have built: "init (scripted_env docker_running) [] =
     (Inr \<lparr>agent = scripted_agent [''4''], agent_run_id = ''run-1''\<rparr>,
      [FromEnv, ContainersGet ''pgvector'', GetAgent bot_agent_cfg, CreateRun])"
    by (simp add: init_def ensure_pgvector_running_def try_block_def scripted_env_def
        docker_running_def scripted_agent_def)
  from built agent_run_id_frame [where env = "scripted_env docker_running" and tr = "[]"
      and ?b0.0 = "\<lparr>agent = scripted_agent [''4''], agent_run_id = ''run-1''\<rparr>"
      and ?tr0.0 = "[FromEnv, ContainersGet ''pgvector'', GetAgent bot_agent_cfg, CreateRun]"
      and b = "scripted_bot [''4'']" and request = "request_of [''2+2'']"]
  show ?thesis by simp
qed

subsection \<open>The container supervisor\<close>

text \<open>
  C2, as the code has it. With a client at hand, \<open>ensure_pgvector_running\<close> decides
  on the lookup. If the lookup raises not-found, it issues exactly one create-and-start
  call, with name \<open>pgvector\<close>, image \<open>phidata/pgvector:16\<close>, container port 5432 mapped
  to host port 5532 and \<open>POSTGRES_DB\<close>, \<open>POSTGRES_USER\<close>, \<open>POSTGRES_PASSWORD\<close> all
  \<open>ai\<close>, and no start call. If the lookup returns a container that is not running, it
  issues exactly one start call, and no create call unless that start call raises
  not-found: then the handler of the \<open>try\<close> block issues the one create-and-start
  call. If the lookup returns a running container, it issues neither.
\<close>

theorem ensure_pgvector_running_calls:
  assumes "from_env d = None"
  shows
   "(containers_get d ''pgvector'' = Inl NotFound \<longrightarrow>
       create_calls (snd (ensure_pgvector_running d tr)) =
         create_calls tr @
           [\<lparr>image_ref = ''phidata/pgvector:16'', name = ''pgvector'', detach = True,
             ports = [(''5432/tcp'', 5532)],
             environment = [(''POSTGRES_DB'', ''ai''), (''POSTGRES_USER'', ''ai''),
                            (''POSTGRES_PASSWORD'', ''ai'')]\<rparr>] \<and>
       start_calls (snd (ensure_pgvector_running d tr)) = start_calls tr) \<and>
    (containers_get d ''pgvector'' = Inr c \<and> status c \<noteq> ''running'' \<and>
     container_start d c \<noteq> Some NotFound \<longrightarrow>
       start_calls (snd (ensure_pgvector_running d tr)) = start_calls tr + 1 \<and>
       create_calls (snd (ensure_pgvector_running d tr)) = create_calls tr) \<and>
    (containers_get d ''pgvector'' = Inr c \<and> status c \<noteq> ''running'' \<and>
     container_start d c = Some NotFound \<longrightarrow>
       start_calls (snd (ensure_pgvector_running d tr)) = start_calls tr + 1 \<and>
       create_calls (snd (ensure_pgvector_running d tr)) =
         create_calls tr @ [pgvector_run_args]) \<and>
    (containers_get d ''pgvector'' = Inr c \<and> status c = ''running'' \<longrightarrow>
       start_calls (snd (ensure_pgvector_running d tr)) = start_calls tr \<and>
       create_calls (snd (ensure_pgvector_running d tr)) = create_calls tr)"
  using assms
  by (auto simp: ensure_pgvector_running_def try_block_def except_block_def
      pgvector_run_args_def start_calls_append create_calls_append split: option.splits)

text \<open>The four cases, each at a control plane that takes it.\<close>

theorem ensure_pgvector_running_calls_witness:
  "create_calls (snd (ensure_pgvector_running docker_absent [])) = [pgvector_run_args] \<and>
   start_calls (snd (ensure_pgvector_running docker_absent [])) = 0 \<and>
   start_calls (snd (ensure_pgvector_running docker_stopped [])) = 1 \<and>
   create_calls (snd (ensure_pgvector_running docker_stopped [])) = [] \<and>
   start_calls (snd (ensure_pgvector_running docker_vanished [])) = 1 \<and>
   create_calls (snd (ensure_pgvector_running docker_vanished [])) = [pgvector_run_args] \<and>
   start_calls (snd (ensure_pgvector_running docker_running [])) = 0 \<and>
   create_calls (snd (ensure_pgvector_running docker_running [])) = []"
  using ensure_pgvector_running_calls [where d = docker_absent and tr = "[]"]
    ensure_pgvector_running_calls [where d = docker_stopped and tr = "[]"
      and c = "\<lparr>status = ''exited''\<rparr>"]
    ensure_pgvector_running_calls [where d = docker_vanished and tr = "[]"
      and c = "\<lparr>status = ''exited''\<rparr>"]
    ensure_pgvector_running_calls [where d = docker_running and tr = "[]"
      and c = "\<lparr>status = ''running''\<rparr>"]
  by (simp add: docker_absent_def docker_stopped_def docker_vanished_def docker_running_def
      pgvector_run_args_def)

text \<open>
  C2 as stated fails where the lookup returns a stopped container and the start call
  raises not-found: the start call is issued, and a create-and-start call after it.
\<close>

theorem ensure_pgvector_running_start_not_found:
  "from_env docker_vanished = None \<and>
   containers_get docker_vanished ''pgvector'' = Inr \<lparr>status = ''exited''\<rparr> \<and>
   status \<lparr>status = ''exited''\<rparr> \<noteq> ''running'' \<and>
   snd (ensure_pgvector_running docker_vanished []) =
     [FromEnv, ContainersGet ''pgvector'', Print ''Starting PgVector container...'',
      ContainerStart, Print ''PgVector container not found, creating and starting...'',
      ContainersRun pgvector_run_args, Sleep 15] \<and>
   create_calls (snd (ensure_pgvector_running docker_vanished [])) \<noteq> []"
  by (simp add: docker_vanished_def ensure_pgvector_running_def try_block_def except_block_def)

text \<open>
  C8. When the lookup returns a container that is not running and the start call
  returns, the start call is followed by a wait of 10 seconds and nothing else. When the
  lookup raises not-found and the create-and-start call returns, that call is followed
  by a wait of 15 seconds, longer than the first, and nothing else. When the container
  runs there is no wait. In every case the container is looked up exactly once, so no
  branch polls, and there is at most one wait.
\<close>

theorem ensure_pgvector_running_waits:
  assumes "from_env d = None"
  shows "(containers_get d ''pgvector'' = Inr c \<and> status c \<noteq> ''running'' \<and>
          container_start d c = None \<longrightarrow>
            snd (ensure_pgvector_running d tr) =
              tr @ [FromEnv, ContainersGet ''pgvector'',
                    Print ''Starting PgVector container...'', ContainerStart, Sleep 10]) \<and>
         (containers_get d ''pgvector'' = Inl NotFound \<and>
          containers_run d pgvector_run_args = None \<longrightarrow>
            snd (ensure_pgvector_running d tr) =
              tr @ [FromEnv, ContainersGet ''pgvector'',
                    Print ''PgVector container not found, creating and starting...'',
                    ContainersRun pgvector_run_args, Sleep 15]) \<and>
         (containers_get d ''pgvector'' = Inr c \<and> status c = ''running'' \<longrightarrow>
            snd (ensure_pgvector_running d tr) = tr @ [FromEnv, ContainersGet ''pgvector'']) \<and>
         (10::nat) < 15 \<and>
         lookups (snd (ensure_pgvector_running d tr)) = lookups tr @ [''pgvector''] \<and>
         length (sleeps (snd (ensure_pgvector_running d tr))) \<le> length (sleeps tr) + 1"
  using assms
  by (auto simp: ensure_pgvector_running_def try_block_def except_block_def
      lookups_append sleeps_append split: option.splits sum.splits)

theorem ensure_pgvector_running_waits_witness:
  "sleeps (snd (ensure_pgvector_running docker_stopped [])) = [10] \<and>
   sleeps (snd (ensure_pgvector_running docker_absent [])) = [15] \<and>
   sleeps (snd (ensure_pgvector_running docker_running [])) = [] \<and>
   lookups (snd (ensure_pgvector_running docker_stopped [])) = [''pgvector''] \<and>
   lookups (snd (ensure_pgvector_running docker_absent [])) = [''pgvector'']"
  using ensure_pgvector_running_waits [where d = docker_stopped and tr = "[]"
      and c = "\<lparr>status = ''exited''\<rparr>"]
    ensure_pgvector_running_waits [where d = docker_absent and tr = "[]"]
    ensure_pgvector_running_waits [where d = docker_running and tr = "[]"
      and c = "\<lparr>status = ''running''\<rparr>"]
  by (simp add: docker_absent_def docker_stopped_def docker_running_def)

text \<open>
  C4. An error other than not-found that the client raises in the lookup, in the start
  call or in the create-and-start call leaves \<open>ensure_pgvector_running\<close> as it is and
  is the outcome of the construction of the bot. The construction stops there:
  \<open>get_agent\<close> is not called. Nothing is tried again: there is one lookup, at most one
  start call and at most one create-and-start call.
\<close>

theorem client_error_aborts_construction:
  assumes "e \<noteq> NotFound"
      and "from_env (docker_client env) = None"
      and "containers_get (docker_client env) ''pgvector'' = Inl e \<or>
           (\<exists>c. containers_get (docker_client env) ''pgvector'' = Inr c \<and>
                status c \<noteq> ''running'' \<and> container_start (docker_client env) c = Some e) \<or>
           ((containers_get (docker_client env) ''pgvector'' = Inl NotFound \<or>
             (\<exists>c. containers_get (docker_client env) ''pgvector'' = Inr c \<and>
                  status c \<noteq> ''running'' \<and>
                  container_start (docker_client env) c = Some NotFound)) \<and>
            containers_run (docker_client env) pgvector_run_args = Some e)"
  shows "fst (ensure_pgvector_running (docker_client env) tr) = Inl e \<and>
         init env tr = (Inl e, snd (ensure_pgvector_running (docker_client env) tr)) \<and>
         agent_constructions (snd (init env tr)) = agent_constructions tr \<and>
         lookups (snd (init env tr)) = lookups tr @ [''pgvector''] \<and>
         start_calls (snd (init env tr)) \<le> start_calls tr + 1 \<and>
         length (create_calls (snd (init env tr))) \<le> length (create_calls tr) + 1"
  using assms
  by (auto simp: init_def ensure_pgvector_running_def try_block_def except_block_def
      agent_constructions_append lookups_append start_calls_append create_calls_append
      split: option.splits)

text \<open>An error of the lookup, of the start call and of the create-and-start call.\<close>

theorem client_error_aborts_construction_witness:
  "init (scripted_env docker_lookup_fails) [] =
     (Inl (OtherError ''connection refused''), [FromEnv, ContainersGet ''pgvector'']) \<and>
   init (scripted_env docker_start_fails) [] =
     (Inl (OtherError ''port is already allocated''),
      [FromEnv, ContainersGet ''pgvector'', Print ''Starting PgVector container...'',
       ContainerStart]) \<and>
   init (scripted_env docker_create_fails) [] =
     (Inl (OtherError ''pull access denied''),
      [FromEnv, ContainersGet ''pgvector'',
       Print ''PgVector container not found, creating and starting...'',
       ContainersRun pgvector_run_args]) \<and>
   agent_constructions (snd (init (scripted_env docker_create_fails) [])) = []"
  using client_error_aborts_construction [where e = "OtherError ''connection refused''"
      and env = "scripted_env docker_lookup_fails" and tr = "[]"]
    client_error_aborts_construction [where e = "OtherError ''port is already allocated''"
      and env = "scripted_env docker_start_fails" and tr = "[]"]
    client_error_aborts_construction [where e = "OtherError ''pull access denied''"
      and env = "scripted_env docker_create_fails" and tr = "[]"]
  by (simp add: scripted_env_def docker_lookup_fails_def docker_start_fails_def
      docker_create_fails_def ensure_pgvector_running_def try_block_def except_block_def)

subsection \<open>The deployment descriptor\<close>

text \<open>
  C6, as the code has it: the package list of the container image has exactly 17
  entries.
\<close>

theorem REQUIREMENTS_length: "length REQUIREMENTS = 17"
  by (simp add: REQUIREMENTS_def)

text \<open>C6 as stated (18 entries) does not hold of the list.\<close>

theorem REQUIREMENTS_length_not_18: "length REQUIREMENTS \<noteq> 18"
  by (simp add: REQUIREMENTS_def)

end
